theory Spec2Isabelle
  imports Main
begin

section \<open>The thrift client facade of dynomite (\<open>pylibs/dynomite/thrift_client.py\<close>)\<close>

text \<open>
  The module defines one class, \<open>Client\<close>, which keeps a host, a port and a
  \<open>threading.local()\<close> object. Every method reads and writes the attributes
  \<open>client\<close> and \<open>transport\<close> of that thread-local object, so every method of the
  model takes the calling thread as an argument. All objects the class builds
  (\<open>TSocket\<close>, \<open>TBufferedTransport\<close>, \<open>TBinaryProtocol\<close>, the generated
  \<open>Dynomite.Client\<close>) belong to libraries outside the module; they are modelled
  as a recording environment whose answers are parameters.
\<close>

subsection \<open>The external collaborators\<close>

type_synonym thread = nat
type_synonym data = string

text \<open>
  Exceptions. \<open>AttributeError\<close> is the one exception the interpreter itself raises
  in this module (a missing attribute of the thread-local object); every other
  exception comes out of an external call and is passed around as it is.
\<close>

datatype exn = AttributeError string | Raised string

text \<open>
  The objects of the thrift library. A \<open>TSocket\<close> is an object with an identity
  (the number of sockets constructed before it), a host and a port; the wrappers
  hold the object they wrap.
\<close>

datatype ttransport = TSocket nat string int | TBufferedTransport ttransport
datatype tprotocol = TBinaryProtocol ttransport
datatype dynomite_client = Dynomite_Client tprotocol

text \<open>
  Modelled from the spec: the generated module \<open>dynomite.Dynomite\<close> is imported by
  the class and defined elsewhere. Its client "must expose \<open>get(key)\<close>, \<open>put(key, context, value)\<close>,
  \<open>has(key)\<close>, \<open>remove(key)\<close> over an already-open protocol object". A request
  records the method called and its positional arguments, in the order of that
  signature: \<open>Req_put key context value\<close>.
\<close>

datatype request =
    Req_get data
  | Req_put data data data
  | Req_has data
  | Req_remove data

text \<open>
  What the outside world sees of a program that uses the facade: connection
  attempts (\<open>open()\<close> on a socket with its host and port), \<open>close()\<close> on a socket,
  and the requests issued by a generated client over a socket. The trace lists
  them oldest first.
\<close>

datatype event =
    Connect nat string int
  | Close nat
  | Call nat request

record world =
  created :: nat
  trace :: "event list"

text \<open>
  The environment decides how each external call ends, from the whole history up
  to and including that call: whether the target accepts the connection, whether
  closing fails, and what the remote store answers.
\<close>

record 'r env =
  open_result :: "event list \<Rightarrow> exn option"
  close_result :: "event list \<Rightarrow> exn option"
  call_result :: "event list \<Rightarrow> exn + 'r"

fun socket_of :: "ttransport \<Rightarrow> nat \<times> string \<times> int" where
  "socket_of (TSocket n h p) = (n, h, p)"
| "socket_of (TBufferedTransport tr) = socket_of tr"

definition socket_id :: "ttransport \<Rightarrow> nat" where
  "socket_id tr = fst (socket_of tr)"

fun client_socket :: "dynomite_client \<Rightarrow> nat" where
  "client_socket (Dynomite_Client (TBinaryProtocol tr)) = socket_id tr"

text \<open>\<open>TSocket.TSocket(host, port)\<close>: a new socket object, not yet connected.\<close>

definition new_TSocket :: "string \<Rightarrow> int \<Rightarrow> world \<Rightarrow> ttransport \<times> world" where
  "new_TSocket h p w = (TSocket (created w) h p, w\<lparr>created := Suc (created w)\<rparr>)"

text \<open>\<open>transport.open()\<close>: one connection attempt to the socket's host and port.\<close>

definition transport_open :: "'r env \<Rightarrow> ttransport \<Rightarrow> world \<Rightarrow> (exn + unit) \<times> world" where
  "transport_open env tr w =
     (case socket_of tr of (n, h, p) \<Rightarrow>
        let tr' = trace w @ [Connect n h p]
        in ((case open_result env tr' of None \<Rightarrow> Inr () | Some e \<Rightarrow> Inl e),
            w\<lparr>trace := tr'\<rparr>))"

text \<open>\<open>transport.close()\<close>.\<close>

definition transport_close :: "'r env \<Rightarrow> ttransport \<Rightarrow> world \<Rightarrow> (exn + unit) \<times> world" where
  "transport_close env tr w =
     (let tr' = trace w @ [Close (socket_id tr)]
      in ((case close_result env tr' of None \<Rightarrow> Inr () | Some e \<Rightarrow> Inl e),
          w\<lparr>trace := tr'\<rparr>))"

text \<open>A method call on the generated client: one request over the client's socket.\<close>

definition client_call :: "'r env \<Rightarrow> dynomite_client \<Rightarrow> request \<Rightarrow> world \<Rightarrow> (exn + 'r) \<times> world" where
  "client_call env cl req w =
     (let tr' = trace w @ [Call (client_socket cl) req]
      in (call_result env tr', w\<lparr>trace := tr'\<rparr>))"

subsection \<open>The class \<open>Client\<close>\<close>

text \<open>
  The attributes a thread may have set on the thread-local object \<open>self._con\<close>;
  \<open>None\<close> stands for an attribute that is not set.
\<close>

record slot =
  client :: "dynomite_client option"
  transport :: "ttransport option"

record Client =
  host :: string
  port :: int
  con :: "thread \<Rightarrow> slot"

definition empty_slot :: slot where
  "empty_slot = \<lparr>client = None, transport = None\<rparr>"

text \<open>\<open>__init__\<close>: \<open>local()\<close> has no attribute in any thread.\<close>

definition init :: "string \<Rightarrow> int \<Rightarrow> Client" where
  "init h p = \<lparr>host = h, port = p, con = (\<lambda>t. empty_slot)\<rparr>"

definition set_client :: "Client \<Rightarrow> thread \<Rightarrow> dynomite_client \<Rightarrow> Client" where
  "set_client self t cl = self\<lparr>con := (con self)(t := (con self t)\<lparr>client := Some cl\<rparr>)\<rparr>"

definition set_transport :: "Client \<Rightarrow> thread \<Rightarrow> ttransport \<Rightarrow> Client" where
  "set_transport self t tr = self\<lparr>con := (con self)(t := (con self t)\<lparr>transport := Some tr\<rparr>)\<rparr>"

text \<open>
  \<open>connect\<close>: returns at once when the calling thread has the attribute \<open>client\<close>.
  Otherwise it builds the socket, the buffered transport, the protocol and the
  generated client, stores the client and then the transport in the thread's
  attributes, and opens the transport last. An exception of \<open>open()\<close> leaves
  the method after both attributes were stored.
\<close>

definition connect :: "'r env \<Rightarrow> Client \<Rightarrow> thread \<Rightarrow> world \<Rightarrow> (exn + unit) \<times> Client \<times> world" where
  "connect env self t w =
     (if client (con self t) \<noteq> None then (Inr (), self, w)
      else
        (case new_TSocket (host self) (port self) w of (sock, w1) \<Rightarrow>
           let transport1 = TBufferedTransport sock;
               protocol = TBinaryProtocol transport1;
               self1 = set_client self t (Dynomite_Client protocol);
               self2 = set_transport self1 t transport1
           in (case transport_open env transport1 w1 of (r, w2) \<Rightarrow> (r, self2, w2))))"

text \<open>
  \<open>self._con.client.m(args)\<close>: the attribute lookup raises \<open>AttributeError\<close> when the
  thread has no attribute \<open>client\<close>; otherwise the generated client is called.
\<close>

definition con_client_call :: "'r env \<Rightarrow> Client \<Rightarrow> thread \<Rightarrow> request \<Rightarrow> world \<Rightarrow> (exn + 'r) \<times> Client \<times> world" where
  "con_client_call env self t req w =
     (case client (con self t) of
        None \<Rightarrow> (Inl (AttributeError ''client''), self, w)
      | Some cl \<Rightarrow> (case client_call env cl req w of (r, w1) \<Rightarrow> (r, self, w1)))"

definition get :: "'r env \<Rightarrow> Client \<Rightarrow> thread \<Rightarrow> data \<Rightarrow> world \<Rightarrow> (exn + 'r) \<times> Client \<times> world" where
  "get env self t key w =
     (case connect env self t w of
        (Inl e, self1, w1) \<Rightarrow> (Inl e, self1, w1)
      | (Inr _, self1, w1) \<Rightarrow> con_client_call env self1 t (Req_get key) w1)"

text \<open>
  \<open>put(self, key, value, context='')\<close>: the third argument is optional; the call to
  the generated client is \<open>put(key, context, value)\<close>.
\<close>

definition put :: "'r env \<Rightarrow> Client \<Rightarrow> thread \<Rightarrow> data \<Rightarrow> data \<Rightarrow> data option \<Rightarrow> world \<Rightarrow> (exn + 'r) \<times> Client \<times> world" where
  "put env self t key val ctx w =
     (let context = (case ctx of None \<Rightarrow> '''' | Some c \<Rightarrow> c)
      in (case connect env self t w of
            (Inl e, self1, w1) \<Rightarrow> (Inl e, self1, w1)
          | (Inr _, self1, w1) \<Rightarrow> con_client_call env self1 t (Req_put key context val) w1))"

definition has :: "'r env \<Rightarrow> Client \<Rightarrow> thread \<Rightarrow> data \<Rightarrow> world \<Rightarrow> (exn + 'r) \<times> Client \<times> world" where
  "has env self t key w =
     (case connect env self t w of
        (Inl e, self1, w1) \<Rightarrow> (Inl e, self1, w1)
      | (Inr _, self1, w1) \<Rightarrow> con_client_call env self1 t (Req_has key) w1)"

definition remove :: "'r env \<Rightarrow> Client \<Rightarrow> thread \<Rightarrow> data \<Rightarrow> world \<Rightarrow> (exn + 'r) \<times> Client \<times> world" where
  "remove env self t key w =
     (case connect env self t w of
        (Inl e, self1, w1) \<Rightarrow> (Inl e, self1, w1)
      | (Inr _, self1, w1) \<Rightarrow> con_client_call env self1 t (Req_remove key) w1)"

text \<open>
  \<open>disconnect\<close>: \<open>self._con.transport.close()\<close>. The attribute lookup raises
  \<open>AttributeError\<close> when the thread has no attribute \<open>transport\<close>. No attribute is
  deleted or assigned.
\<close>

definition disconnect :: "'r env \<Rightarrow> Client \<Rightarrow> thread \<Rightarrow> world \<Rightarrow> (exn + unit) \<times> Client \<times> world" where
  "disconnect env self t w =
     (case transport (con self t) of
        None \<Rightarrow> (Inl (AttributeError ''transport''), self, w)
      | Some tr \<Rightarrow> (case transport_close env tr w of (r, w1) \<Rightarrow> (r, self, w1)))"

text \<open>\<open>__del__\<close>: calls \<open>disconnect\<close> in the thread that runs the finalizer.\<close>

definition del :: "'r env \<Rightarrow> Client \<Rightarrow> thread \<Rightarrow> world \<Rightarrow> (exn + unit) \<times> Client \<times> world" where
  "del env self t w = disconnect env self t w"

subsection \<open>Sequences of calls\<close>

text \<open>
  A caller's program, as far as the facade is concerned, is a sequence of method
  calls, each made by some thread. A call that raises leaves the facade and the
  world as they were at the raise; the caller goes on with the next call.
\<close>

datatype op =
    Op_get data
  | Op_put data data "data option"
  | Op_has data
  | Op_remove data
  | Op_connect
  | Op_disconnect
  | Op_del

fun exec :: "'r env \<Rightarrow> Client \<times> world \<Rightarrow> thread \<times> op \<Rightarrow> Client \<times> world" where
  "exec env (self, w) (t, Op_get key) = snd (get env self t key w)"
| "exec env (self, w) (t, Op_put key val ctx) = snd (put env self t key val ctx w)"
| "exec env (self, w) (t, Op_has key) = snd (has env self t key w)"
| "exec env (self, w) (t, Op_remove key) = snd (remove env self t key w)"
| "exec env (self, w) (t, Op_connect) = snd (connect env self t w)"
| "exec env (self, w) (t, Op_disconnect) = snd (disconnect env self t w)"
| "exec env (self, w) (t, Op_del) = snd (del env self t w)"

definition run :: "'r env \<Rightarrow> Client \<times> world \<Rightarrow> (thread \<times> op) list \<Rightarrow> Client \<times> world" where
  "run env s calls = foldl (exec env) s calls"

fun is_connect :: "event \<Rightarrow> bool" where
  "is_connect (Connect n h p) = True"
| "is_connect _ = False"

text \<open>The number of underlying connection attempts among some events.\<close>

definition connection_attempts :: "event list \<Rightarrow> nat" where
  "connection_attempts es = length (filter is_connect es)"

text \<open>The events a run adds to the trace it started from.\<close>

definition new_events :: "world \<Rightarrow> world \<Rightarrow> event list" where
  "new_events w w' = drop (length (trace w)) (trace w')"

subsection \<open>Vocabulary of the properties\<close>

text \<open>The socket an event happens on.\<close>

fun event_socket :: "event \<Rightarrow> nat" where
  "event_socket (Connect n h p) = n"
| "event_socket (Close n) = n"
| "event_socket (Call n req) = n"

text \<open>\<open>disconnect\<close> and \<open>__del__\<close> are the two methods that never call \<open>connect\<close>.\<close>

fun is_teardown :: "op \<Rightarrow> bool" where
  "is_teardown Op_disconnect = True"
| "is_teardown Op_del = True"
| "is_teardown _ = False"

text \<open>The four operations of the store: \<open>get\<close>, \<open>put\<close>, \<open>has\<close>, \<open>remove\<close>.\<close>

fun is_store_op :: "op \<Rightarrow> bool" where
  "is_store_op Op_connect = False"
| "is_store_op Op_disconnect = False"
| "is_store_op Op_del = False"
| "is_store_op _ = True"

text \<open>
  What holds of the slots of a facade in every state it can reach: a recorded
  client speaks over the recorded transport's socket, every recorded socket has
  been constructed, and two threads never record the same socket.
\<close>

definition slots_ok :: "Client \<Rightarrow> world \<Rightarrow> bool" where
  "slots_ok self w \<longleftrightarrow>
     (\<forall>t cl. client (con self t) = Some cl \<longrightarrow>
        (\<exists>tr. transport (con self t) = Some tr \<and> client_socket cl = socket_id tr)) \<and>
     (\<forall>t tr. transport (con self t) = Some tr \<longrightarrow> socket_id tr < created w) \<and>
     (\<forall>t t' tr tr'. t \<noteq> t' \<longrightarrow> transport (con self t) = Some tr \<longrightarrow>
        transport (con self t') = Some tr' \<longrightarrow> socket_id tr \<noteq> socket_id tr')"

subsection \<open>Test doubles\<close>

text \<open>
  A world in which nothing has happened yet, a facade for \<open>localhost:9191\<close>, and
  two environments. In \<open>env_up\<close> the target accepts every connection and the
  store answers \<open>''1''\<close>, except that \<open>remove\<close> raises. In \<open>env_refuse_first\<close>
  the very first connection attempt is refused and every later one is accepted.
\<close>

definition world0 :: world where
  "world0 = \<lparr>created = 0, trace = []\<rparr>"

definition facade0 :: Client where
  "facade0 = init ''localhost'' 9191"

definition socket0 :: ttransport where
  "socket0 = TBufferedTransport (TSocket 0 ''localhost'' 9191)"

definition env_up :: "string env" where
  "env_up =
     \<lparr>open_result = (\<lambda>es. None),
      close_result = (\<lambda>es. None),
      call_result = (\<lambda>es. case rev es of
                             Call n (Req_remove k) # _ \<Rightarrow> Inl (Raised ''missing'')
                           | _ \<Rightarrow> Inr ''1'')\<rparr>"

definition env_refuse_first :: "string env" where
  "env_refuse_first =
     \<lparr>open_result = (\<lambda>es. if connection_attempts es \<le> 1 then Some (Raised ''refused'') else None),
      close_result = (\<lambda>es. None),
      call_result = (\<lambda>es. Inr ''1'')\<rparr>"

lemmas facade_defs =
  init_def empty_slot_def connect_def get_def put_def has_def remove_def disconnect_def del_def
  new_TSocket_def set_client_def set_transport_def transport_open_def transport_close_def
  con_client_call_def client_call_def socket_id_def new_events_def connection_attempts_def
  Let_def

lemmas fixture_defs = facade0_def socket0_def world0_def env_up_def env_refuse_first_def

section \<open>Basic facts about the methods\<close>

lemma slot_updates [simp]:
  "(s::slot)\<lparr>client := a, transport := b\<rparr> = \<lparr>client = a, transport = b\<rparr>"
  by (cases s) simp

lemma connect_present:
  "client (con self t) = Some cl \<Longrightarrow> connect env self t w = (Inr (), self, w)"
  by (simp add: connect_def)

lemma connect_absent:
  "client (con self t) = None \<Longrightarrow>
   connect env self t w =
     ((case open_result env (trace w @ [Connect (created w) (host self) (port self)]) of
         None \<Rightarrow> Inr () | Some e \<Rightarrow> Inl e),
      self\<lparr>con := (con self)(t :=
         \<lparr>client = Some (Dynomite_Client (TBinaryProtocol (TBufferedTransport
                     (TSocket (created w) (host self) (port self))))),
          transport = Some (TBufferedTransport (TSocket (created w) (host self) (port self)))\<rparr>)\<rparr>,
      w\<lparr>created := Suc (created w),
        trace := trace w @ [Connect (created w) (host self) (port self)]\<rparr>)"
  by (simp add: connect_def new_TSocket_def set_client_def set_transport_def
      transport_open_def Let_def)

lemma connect_records_client:
  "connect env self t w = (r, self1, w1) \<Longrightarrow> \<exists>cl. client (con self1 t) = Some cl"
  by (cases "client (con self t)") (auto simp: connect_present connect_absent)

lemma con_client_call_present:
  "client (con self t) = Some cl \<Longrightarrow>
   con_client_call env self t req w =
     (call_result env (trace w @ [Call (client_socket cl) req]), self,
      w\<lparr>trace := trace w @ [Call (client_socket cl) req]\<rparr>)"
  by (simp add: con_client_call_def client_call_def Let_def)

section \<open>Single calls\<close>

text \<open>
  Claim C4. In a thread whose slot has no \<open>transport\<close> attribute, \<open>disconnect()\<close>
  raises \<open>AttributeError\<close> for the missing attribute; it is not a silent no-op.
  Neither the facade nor the world changes.
\<close>

theorem disconnect_without_transport:
  "transport (con self t) = None \<Longrightarrow>
   disconnect env self t w = (Inl (AttributeError ''transport''), self, w)"
  by (simp add: disconnect_def)

theorem disconnect_without_transport_witness:
  "transport (con facade0 0) = None \<and>
   disconnect env_up facade0 0 world0 = (Inl (AttributeError ''transport''), facade0, world0)"
  using disconnect_without_transport [of facade0 0 env_up world0]
  by (simp add: init_def empty_slot_def facade0_def)

text \<open>
  Claim C5. \<open>connect()\<close> is idempotent per thread. In a thread whose slot records a
  client it does nothing: it returns normally and leaves the facade and the world
  as they are, so no connection is attempted. In a thread with an empty slot it
  makes exactly one connection attempt, to the facade's host and port, which
  returns normally when the target accepts; afterwards the slot records a client
  and another \<open>connect()\<close> does nothing.
\<close>

theorem connect_idempotent:
  "(client (con self t) \<noteq> None \<longrightarrow> connect env self t w = (Inr (), self, w)) \<and>
   (client (con self t) = None \<longrightarrow>
      (\<exists>r self1 w1. connect env self t w = (r, self1, w1) \<and>
         new_events w w1 = [Connect (created w) (host self) (port self)] \<and>
         connection_attempts (new_events w w1) = 1 \<and>
         (open_result env (trace w1) = None \<longrightarrow> r = Inr ()) \<and>
         client (con self1 t) \<noteq> None \<and>
         connect env self1 t w1 = (Inr (), self1, w1)))"
  by (auto simp: connect_present connect_absent new_events_def connection_attempts_def)

theorem connect_idempotent_witness:
  "client (con facade0 0) = None \<and>
   new_events world0 (snd (snd (connect env_up facade0 0 world0))) =
     [Connect 0 ''localhost'' 9191] \<and>
   client (con (fst (snd (connect env_up facade0 0 world0))) 0) \<noteq> None \<and>
   connect env_up (fst (snd (connect env_up facade0 0 world0))) 0
       (snd (snd (connect env_up facade0 0 world0))) =
     (Inr (), fst (snd (connect env_up facade0 0 world0)),
      snd (snd (connect env_up facade0 0 world0)))"
  using connect_idempotent [of facade0 0 env_up world0]
    connect_idempotent [of "fst (snd (connect env_up facade0 0 world0))" 0 env_up
      "snd (snd (connect env_up facade0 0 world0))"]
  by (simp add: facade_defs fixture_defs)

text \<open>
  Claim C3. \<open>put(key, value, context)\<close>, with the context the empty string when it is
  omitted, issues one request through the client of the calling thread once
  \<open>connect()\<close> has returned: the request is \<open>put\<close> with the arguments in the order
  key, context, value. What \<open>put\<close> returns is the outcome of that request, a
  result or an exception, and the facade is as \<open>connect()\<close> left it.
\<close>

theorem put_argument_order:
  assumes "connect env self t w = (Inr u, self1, w1)"
  shows "\<exists>cl. client (con self1 t) = Some cl \<and>
     put env self t key val ctx w =
       (call_result env
          (trace w1 @ [Call (client_socket cl) (Req_put key (case ctx of None \<Rightarrow> '''' | Some c \<Rightarrow> c) val)]),
        self1,
        w1\<lparr>trace := trace w1 @
           [Call (client_socket cl) (Req_put key (case ctx of None \<Rightarrow> '''' | Some c \<Rightarrow> c) val)]\<rparr>)"
proof -
  from connect_records_client [OF assms] obtain cl where cl: "client (con self1 t) = Some cl" ..
  show ?thesis
    using assms cl by (simp add: put_def con_client_call_present Let_def)
qed

theorem put_argument_order_witness:
  "fst (connect env_up facade0 0 world0) = Inr () \<and>
   fst (put env_up facade0 0 ''k'' ''v'' (Some ''c'') world0) = Inr ''1'' \<and>
   new_events world0 (snd (snd (put env_up facade0 0 ''k'' ''v'' (Some ''c'') world0))) =
     [Connect 0 ''localhost'' 9191, Call 0 (Req_put ''k'' ''c'' ''v'')] \<and>
   new_events world0 (snd (snd (put env_up facade0 0 ''a'' ''1'' None world0))) =
     [Connect 0 ''localhost'' 9191, Call 0 (Req_put ''a'' [] ''1'')]"
  using put_argument_order [of env_up facade0 0 world0 "()"
      "fst (snd (connect env_up facade0 0 world0))"
      "snd (snd (connect env_up facade0 0 world0))" "''k''" "''v''" "Some ''c''"]
    put_argument_order [of env_up facade0 0 world0 "()"
      "fst (snd (connect env_up facade0 0 world0))"
      "snd (snd (connect env_up facade0 0 world0))" "''a''" "''1''" None]
  by (simp add: facade_defs fixture_defs)

text \<open>
  Claim C6. Each of \<open>get(key)\<close>, \<open>has(key)\<close> and \<open>remove(key)\<close> runs \<open>connect()\<close>
  first. When \<open>connect()\<close> raises, the method raises the same exception and issues
  no request. When \<open>connect()\<close> returns, the thread's slot records a client, the
  method issues exactly one request through it, the request of the same name with
  the same key, and returns the outcome of that request unchanged, be it a result
  or an exception. Nothing is cached, translated or retried.
\<close>

theorem get_has_remove_forward:
  assumes "connect env self t w = (r0, self1, w1)"
  shows "case r0 of
      Inl e \<Rightarrow>
        get env self t key w = (Inl e, self1, w1) \<and>
        has env self t key w = (Inl e, self1, w1) \<and>
        remove env self t key w = (Inl e, self1, w1)
    | Inr u \<Rightarrow>
        (\<exists>cl. client (con self1 t) = Some cl \<and>
           get env self t key w =
             (call_result env (trace w1 @ [Call (client_socket cl) (Req_get key)]), self1,
              w1\<lparr>trace := trace w1 @ [Call (client_socket cl) (Req_get key)]\<rparr>) \<and>
           has env self t key w =
             (call_result env (trace w1 @ [Call (client_socket cl) (Req_has key)]), self1,
              w1\<lparr>trace := trace w1 @ [Call (client_socket cl) (Req_has key)]\<rparr>) \<and>
           remove env self t key w =
             (call_result env (trace w1 @ [Call (client_socket cl) (Req_remove key)]), self1,
              w1\<lparr>trace := trace w1 @ [Call (client_socket cl) (Req_remove key)]\<rparr>))"
proof (cases r0)
  case (Inl e)
  with assms show ?thesis by (simp add: get_def has_def remove_def)
next
  case (Inr u)
  from connect_records_client [OF assms] obtain cl where cl: "client (con self1 t) = Some cl" ..
  with assms Inr show ?thesis
    by (simp add: get_def has_def remove_def con_client_call_present)
qed

theorem get_has_remove_forward_witness:
  "fst (connect env_up facade0 0 world0) = Inr () \<and>
   fst (get env_up facade0 0 ''a'' world0) = Inr ''1'' \<and>
   new_events world0 (snd (snd (has env_up facade0 0 ''missing'' world0))) =
     [Connect 0 ''localhost'' 9191, Call 0 (Req_has ''missing'')] \<and>
   fst (remove env_up facade0 0 ''a'' world0) = Inl (Raised ''missing'') \<and>
   fst (connect env_refuse_first facade0 0 world0) = Inl (Raised ''refused'') \<and>
   fst (get env_refuse_first facade0 0 ''a'' world0) = Inl (Raised ''refused'') \<and>
   new_events world0 (snd (snd (get env_refuse_first facade0 0 ''a'' world0))) =
     [Connect 0 ''localhost'' 9191]"
  using get_has_remove_forward [of env_up facade0 0 world0 "Inr ()"
      "fst (snd (connect env_up facade0 0 world0))"
      "snd (snd (connect env_up facade0 0 world0))" "''a''"]
    get_has_remove_forward [of env_refuse_first facade0 0 world0 "Inl (Raised ''refused'')"
      "fst (snd (connect env_refuse_first facade0 0 world0))"
      "snd (snd (connect env_refuse_first facade0 0 world0))" "''a''"]
  by (simp add: facade_defs fixture_defs)

text \<open>
  Claim C2, as the code has it. In a thread with an empty slot, when \<open>open()\<close>
  raises, \<open>connect()\<close> raises the same exception after one connection attempt and
  after it has stored both the client and the transport that failed to open: the
  thread's slot is not empty. A later \<open>connect()\<close> in that thread finds the client,
  returns normally at once and attempts no connection, whatever the world is by then.
\<close>

theorem failed_open_keeps_slot:
  assumes "client (con self t) = None" and "connect env self t w = (Inl e, self1, w1)"
  shows "open_result env (trace w1) = Some e \<and>
         trace w1 = trace w @ [Connect (created w) (host self) (port self)] \<and>
         client (con self1 t) \<noteq> None \<and> transport (con self1 t) \<noteq> None \<and>
         (\<forall>w2. connect env self1 t w2 = (Inr (), self1, w2))"
  using assms by (auto simp: connect_absent connect_present split: option.splits)

theorem failed_open_keeps_slot_witness:
  "client (con facade0 0) = None \<and>
   fst (connect env_refuse_first facade0 0 world0) = Inl (Raised ''refused'') \<and>
   client (con (fst (snd (connect env_refuse_first facade0 0 world0))) 0) \<noteq> None \<and>
   transport (con (fst (snd (connect env_refuse_first facade0 0 world0))) 0) \<noteq> None \<and>
   connect env_refuse_first (fst (snd (connect env_refuse_first facade0 0 world0))) 0
       (snd (snd (connect env_refuse_first facade0 0 world0))) =
     (Inr (), fst (snd (connect env_refuse_first facade0 0 world0)),
      snd (snd (connect env_refuse_first facade0 0 world0)))"
  using failed_open_keeps_slot [of facade0 0 env_refuse_first world0 "Raised ''refused''"
      "fst (snd (connect env_refuse_first facade0 0 world0))"
      "snd (snd (connect env_refuse_first facade0 0 world0))"]
  by (simp add: facade_defs fixture_defs)

text \<open>
  The claim as the specification words it fails: the first connection attempt of
  a fresh thread is refused, the slot is not empty afterwards, and the second
  \<open>connect()\<close>, which the target would now accept, does not attempt to connect.
\<close>

theorem failed_open_counterexample:
  "client (con facade0 0) = None \<and>
   fst (connect env_refuse_first facade0 0 world0) = Inl (Raised ''refused'') \<and>
   con (fst (snd (connect env_refuse_first facade0 0 world0))) 0 \<noteq> empty_slot \<and>
   open_result env_refuse_first
     (trace (snd (run env_refuse_first (facade0, world0) [(0, Op_connect)]))
        @ [Connect 1 ''localhost'' 9191]) = None \<and>
   new_events
     (snd (run env_refuse_first (facade0, world0) [(0, Op_connect)]))
     (snd (run env_refuse_first (facade0, world0) [(0, Op_connect), (0, Op_connect)]))
     = []"
  by (simp add: facade_defs fixture_defs run_def)

section \<open>Runs of calls\<close>

lemma run_Nil [simp]: "run env s [] = s"
  by (simp add: run_def)

lemma run_Cons [simp]: "run env s (c # cs) = run env (exec env s c) cs"
  by (simp add: run_def)

lemma run_snoc [simp]: "run env s (cs @ [c]) = exec env (run env s cs) c"
  by (simp add: run_def)

text \<open>
  Claim C1, as the code has it. In a thread with an empty slot, the sequence
  \<open>connect\<close>, \<open>disconnect\<close>, then any of \<open>get\<close>, \<open>put\<close>, \<open>has\<close>, \<open>remove\<close> makes
  exactly one connection attempt, the one of the first \<open>connect\<close>. \<open>disconnect\<close>
  closes the socket and leaves the slot as it is, so the operation's own
  \<open>connect()\<close> returns at once and the request goes through the recorded client,
  over the socket that was closed.
\<close>

theorem no_reconnect_after_disconnect:
  assumes "client (con self t) = None" and "is_store_op op"
  shows "(\<exists>req. new_events w (snd (run env (self, w)
             [(t, Op_connect), (t, Op_disconnect), (t, op)])) =
           [Connect (created w) (host self) (port self), Close (created w),
            Call (created w) req]) \<and>
         connection_attempts (new_events w (snd (run env (self, w)
             [(t, Op_connect), (t, Op_disconnect), (t, op)]))) = 1"
  using assms
  by (cases op)
     (auto simp: connect_absent connect_present get_def put_def has_def remove_def
        disconnect_def transport_close_def con_client_call_def client_call_def
        new_events_def connection_attempts_def socket_id_def Let_def)

theorem no_reconnect_after_disconnect_witness:
  "client (con facade0 0) = None \<and> is_store_op (Op_get ''a'') \<and>
   new_events world0 (snd (run env_up (facade0, world0)
       [(0, Op_connect), (0, Op_disconnect), (0, Op_get ''a'')])) =
     [Connect 0 ''localhost'' 9191, Close 0, Call 0 (Req_get ''a'')] \<and>
   connection_attempts (new_events world0 (snd (run env_up (facade0, world0)
       [(0, Op_connect), (0, Op_disconnect), (0, Op_get ''a'')]))) = 1"
  using no_reconnect_after_disconnect [of facade0 0 "Op_get ''a''" world0 env_up]
  by (simp add: facade_defs fixture_defs)

text \<open>
  The claim as the specification words it fails: on a fresh facade, after
  \<open>connect\<close>, \<open>disconnect\<close>, \<open>get\<close> in one thread the number of connection attempts
  is not 2.
\<close>

theorem reconnect_counterexample:
  "connection_attempts (trace (snd (run env_up (facade0, world0)
      [(0, Op_connect), (0, Op_disconnect), (0, Op_get ''a'')]))) \<noteq> 2"
  by (simp add: facade_defs fixture_defs)

subsection \<open>The effect of one call\<close>

lemma exec_facade:
  "fst (exec env (self, w) (t, op)) =
     (if is_teardown op then self else fst (snd (connect env self t w)))"
proof (cases "client (con self t)")
  case None
  then show ?thesis
    by (cases op)
       (auto simp: get_def put_def has_def remove_def del_def disconnect_def connect_absent
          con_client_call_def client_call_def transport_close_def Let_def
          split: option.splits sum.splits prod.splits)
next
  case (Some cl)
  then show ?thesis
    by (cases op)
       (auto simp: get_def put_def has_def remove_def del_def disconnect_def connect_present
          con_client_call_def client_call_def transport_close_def Let_def
          split: option.splits sum.splits prod.splits)
qed

lemma exec_world:
  "created (snd (exec env (self, w) (t, op))) =
     (if client (con self t) = None \<and> \<not> is_teardown op then Suc (created w) else created w) \<and>
   (\<exists>es. trace (snd (exec env (self, w) (t, op))) = trace w @ es \<and>
        (\<forall>ev \<in> set es.
           (case ev of
              Connect n h p \<Rightarrow>
                client (con self t) = None \<and> n = created w \<and> h = host self \<and> p = port self
            | Close n \<Rightarrow> (\<exists>tr. transport (con self t) = Some tr \<and> n = socket_id tr)
            | Call n req \<Rightarrow>
                (case client (con self t) of None \<Rightarrow> n = created w
                 | Some cl \<Rightarrow> n = client_socket cl))) \<and>
        connection_attempts es \<le> 1)"
proof (cases "client (con self t)")
  case None
  then show ?thesis
    by (cases op)
       (auto simp: get_def put_def has_def remove_def del_def disconnect_def connect_absent
          con_client_call_def client_call_def transport_close_def Let_def socket_id_def
          connection_attempts_def
          split: option.splits sum.splits prod.splits)
next
  case (Some cl)
  then show ?thesis
    by (cases op)
       (auto simp: get_def put_def has_def remove_def del_def disconnect_def connect_present
          con_client_call_def client_call_def transport_close_def Let_def
          connection_attempts_def
          split: option.splits sum.splits prod.splits)
qed

lemma exec_slot:
  "con (fst (exec env (self, w) (t, op))) t' =
     (if t' = t \<and> client (con self t) = None \<and> \<not> is_teardown op
      then \<lparr>client = Some (Dynomite_Client (TBinaryProtocol (TBufferedTransport
                     (TSocket (created w) (host self) (port self))))),
            transport = Some (TBufferedTransport (TSocket (created w) (host self) (port self)))\<rparr>
      else con self t')"
  by (cases "client (con self t)") (auto simp: exec_facade connect_absent connect_present)

lemma exec_host_port:
  "host (fst (exec env (self, w) (t, op))) = host self \<and>
   port (fst (exec env (self, w) (t, op))) = port self"
  by (cases "client (con self t)") (auto simp: exec_facade connect_absent connect_present)

lemma exec_read_frame:
  assumes "t1 \<noteq> t2"
  shows "exec env (self\<lparr>con := (con self)(t2 := s)\<rparr>, w) (t1, op) =
     (case exec env (self, w) (t1, op) of
        (self', w') \<Rightarrow> (self'\<lparr>con := (con self')(t2 := s)\<rparr>, w'))"
proof (cases "client (con self t1)")
  case None
  with assms show ?thesis
    by (cases op)
       (auto simp: get_def put_def has_def remove_def del_def disconnect_def connect_absent
          con_client_call_def client_call_def transport_close_def Let_def fun_upd_twist
          split: option.splits sum.splits prod.splits)
next
  case (Some cl)
  with assms show ?thesis
    by (cases op)
       (auto simp: get_def put_def has_def remove_def del_def disconnect_def connect_present
          con_client_call_def client_call_def transport_close_def Let_def fun_upd_twist
          split: option.splits sum.splits prod.splits)
qed

subsection \<open>Host and port\<close>

lemma run_host_port:
  "host (fst (run env (self, w) calls)) = host self \<and>
   port (fst (run env (self, w) calls)) = port self \<and>
   (\<exists>es. trace (snd (run env (self, w) calls)) = trace w @ es \<and>
      (\<forall>n h p. Connect n h p \<in> set es \<longrightarrow> h = host self \<and> p = port self))"
proof (induction calls rule: rev_induct)
  case Nil
  show ?case by simp
next
  case (snoc c cs)
  obtain self1 w1 where s1: "run env (self, w) cs = (self1, w1)"
    by (cases "run env (self, w) cs")
  obtain t op where c: "c = (t, op)"
    by (cases c)
  from snoc s1 obtain es where
    hp: "host self1 = host self" "port self1 = port self" and
    es: "trace w1 = trace w @ es"
        "\<forall>n h p. Connect n h p \<in> set es \<longrightarrow> h = host self \<and> p = port self"
    by auto
  from exec_world [of env self1 w1 t op] obtain es' where
    es': "trace (snd (exec env (self1, w1) (t, op))) = trace w1 @ es'"
         "\<forall>ev \<in> set es'. (case ev of
              Connect n h p \<Rightarrow>
                client (con self1 t) = None \<and> n = created w1 \<and> h = host self1 \<and> p = port self1
            | Close n \<Rightarrow> (\<exists>tr. transport (con self1 t) = Some tr \<and> n = socket_id tr)
            | Call n req \<Rightarrow>
                (case client (con self1 t) of None \<Rightarrow> n = created w1
                 | Some cl \<Rightarrow> n = client_socket cl))"
    by blast
  have "\<forall>n h p. Connect n h p \<in> set (es @ es') \<longrightarrow> h = host self \<and> p = port self"
    using es(2) es'(2) hp by fastforce
  moreover have "trace (snd (exec env (self1, w1) (t, op))) = trace w @ (es @ es')"
    using es(1) es'(1) by simp
  ultimately show ?case
    using s1 c hp exec_host_port [of env self1 w1 t op] by (simp del: append_assoc)
qed

text \<open>
  Claim C8. The host and the port given at construction never change: after any
  sequence of calls of \<open>get\<close>, \<open>put\<close>, \<open>has\<close>, \<open>remove\<close>, \<open>connect\<close>,
  \<open>disconnect\<close> and \<open>__del__\<close>, by any threads, the facade has the host and port
  it started with, and every connection attempt made along the way went to that
  host and that port.
\<close>

theorem host_port_immutable:
  "host (fst (run env (self, w) calls)) = host self \<and>
   port (fst (run env (self, w) calls)) = port self \<and>
   (\<forall>ev \<in> set (new_events w (snd (run env (self, w) calls))).
      \<forall>n h p. ev = Connect n h p \<longrightarrow> h = host self \<and> p = port self)"
  using run_host_port [of env self w calls] by (auto simp: new_events_def)

theorem host_port_immutable_witness:
  "host (fst (run env_up (facade0, world0)
      [(0, Op_put ''a'' ''1'' None), (1, Op_get ''a''), (0, Op_disconnect), (0, Op_del)])) =
     ''localhost'' \<and>
   port (fst (run env_up (facade0, world0)
      [(0, Op_put ''a'' ''1'' None), (1, Op_get ''a''), (0, Op_disconnect), (0, Op_del)])) = 9191 \<and>
   filter is_connect (new_events world0 (snd (run env_up (facade0, world0)
      [(0, Op_put ''a'' ''1'' None), (1, Op_get ''a''), (0, Op_disconnect), (0, Op_del)]))) =
     [Connect 0 ''localhost'' 9191, Connect 1 ''localhost'' 9191]"
  using host_port_immutable [of env_up facade0 world0
      "[(0, Op_put ''a'' ''1'' None), (1, Op_get ''a''), (0, Op_disconnect), (0, Op_del)]"]
  by (simp add: facade_defs fixture_defs)

subsection \<open>What a slot keeps\<close>

lemma run_slot_kept:
  "client (con self t) \<noteq> None \<Longrightarrow> con (fst (run env (self, w) calls)) t = con self t"
proof (induction calls rule: rev_induct)
  case Nil
  show ?case by simp
next
  case (snoc c cs)
  obtain self1 w1 where s1: "run env (self, w) cs = (self1, w1)"
    by (cases "run env (self, w) cs")
  obtain t' op where c: "c = (t', op)"
    by (cases c)
  from snoc s1 have "con self1 t = con self t" by simp
  with snoc.prems show ?case
    using s1 c by (auto simp: exec_slot)
qed

lemma run_transport_kept:
  "transport (con self t) \<noteq> None \<Longrightarrow> transport (con (fst (run env (self, w) calls)) t) \<noteq> None"
proof (induction calls rule: rev_induct)
  case Nil
  then show ?case by simp
next
  case (snoc c cs)
  obtain self1 w1 where s1: "run env (self, w) cs = (self1, w1)"
    by (cases "run env (self, w) cs")
  obtain t' op where c: "c = (t', op)"
    by (cases c)
  from snoc s1 have "transport (con self1 t) \<noteq> None" by simp
  then show ?case
    using s1 c by (simp add: exec_slot)
qed

lemma run_slot_paired:
  "(client (con self t) = None) = (transport (con self t) = None) \<Longrightarrow>
   (client (con (fst (run env (self, w) calls)) t) = None) =
   (transport (con (fst (run env (self, w) calls)) t) = None)"
proof (induction calls rule: rev_induct)
  case Nil
  then show ?case by simp
next
  case (snoc c cs)
  obtain self1 w1 where s1: "run env (self, w) cs = (self1, w1)"
    by (cases "run env (self, w) cs")
  obtain t' op where c: "c = (t', op)"
    by (cases c)
  from snoc s1 have "(client (con self1 t) = None) = (transport (con self1 t) = None)" by simp
  then show ?case
    using s1 c by (simp add: exec_slot)
qed

text \<open>
  Claim C9. \<open>disconnect()\<close> closes the transport recorded for the calling thread
  and leaves the facade as it is: the \<open>client\<close> and \<open>transport\<close> attributes stay
  recorded. No sequence of calls removes an attribute once it is set: a slot that
  records a client is never changed again, and a slot that records a transport
  records one ever after.
\<close>

theorem disconnect_keeps_slot:
  "(\<forall>tr. transport (con self t) = Some tr \<longrightarrow>
      (\<exists>r. disconnect env self t w = (r, self, w\<lparr>trace := trace w @ [Close (socket_id tr)]\<rparr>))) \<and>
   (client (con self t) \<noteq> None \<longrightarrow> con (fst (run env (self, w) calls)) t = con self t) \<and>
   (transport (con self t) \<noteq> None \<longrightarrow>
      transport (con (fst (run env (self, w) calls)) t) \<noteq> None)"
  using run_slot_kept [of self t env w calls] run_transport_kept [of self t env w calls]
  by (auto simp: disconnect_def transport_close_def Let_def)

theorem disconnect_keeps_slot_witness:
  "transport (con (fst (run env_up (facade0, world0) [(0, Op_connect)])) 0) = Some socket0 \<and>
   fst (disconnect env_up (fst (run env_up (facade0, world0) [(0, Op_connect)])) 0
          (snd (run env_up (facade0, world0) [(0, Op_connect)]))) = Inr () \<and>
   client (con (fst (run env_up (facade0, world0) [(0, Op_connect)])) 0) \<noteq> None \<and>
   con (fst (run env_up (run env_up (facade0, world0) [(0, Op_connect)])
          [(0, Op_disconnect), (0, Op_get ''a''), (0, Op_del)])) 0 =
     \<lparr>client = Some (Dynomite_Client (TBinaryProtocol socket0)), transport = Some socket0\<rparr>"
  using disconnect_keeps_slot [of
      "fst (run env_up (facade0, world0) [(0, Op_connect)])" 0 env_up
      "snd (run env_up (facade0, world0) [(0, Op_connect)])"
      "[(0, Op_disconnect), (0, Op_get ''a''), (0, Op_del)]"]
  by (simp add: facade_defs fixture_defs)

text \<open>
  Claim C10. In every thread the slot has the \<open>client\<close> attribute exactly when it
  has the \<open>transport\<close> attribute. This holds after \<open>__init__\<close>, and any sequence of
  calls keeps it, whether the calls return or raise.
\<close>

theorem slot_attributes_paired:
  "((client (con (init h p) t) = None) = (transport (con (init h p) t) = None)) \<and>
   (((client (con self t) = None) = (transport (con self t) = None)) \<longrightarrow>
    ((client (con (fst (run env (self, w) calls)) t) = None) =
     (transport (con (fst (run env (self, w) calls)) t) = None)))"
  using run_slot_paired [of self t env w calls] by (simp add: init_def empty_slot_def)

theorem slot_attributes_paired_witness:
  "((client (con facade0 0) = None) = (transport (con facade0 0) = None)) \<and>
   fst (connect env_refuse_first facade0 0 world0) = Inl (Raised ''refused'') \<and>
   client (con (fst (run env_refuse_first (facade0, world0)
       [(0, Op_connect), (0, Op_get ''a'')])) 0) \<noteq> None \<and>
   transport (con (fst (run env_refuse_first (facade0, world0)
       [(0, Op_connect), (0, Op_get ''a'')])) 0) \<noteq> None"
  using slot_attributes_paired [of "''localhost''" 9191 0 facade0 env_refuse_first world0
      "[(0, Op_connect), (0, Op_get ''a'')]"]
  by (simp add: facade_defs fixture_defs)

subsection \<open>Threads\<close>

lemma slots_ok_init: "slots_ok (init h p) w"
  by (simp add: slots_ok_def init_def empty_slot_def)

lemma slots_ok_exec:
  assumes ok: "slots_ok self w"
  shows "slots_ok (fst (exec env (self, w) (t, op))) (snd (exec env (self, w) (t, op)))"
proof (cases "client (con self t) = None \<and> \<not> is_teardown op")
  case False
  then have "con (fst (exec env (self, w) (t, op))) = con self"
    by (auto simp: exec_slot)
  moreover from False have "created (snd (exec env (self, w) (t, op))) = created w"
    using exec_world [of env self w t op] by auto
  ultimately show ?thesis
    using ok by (simp add: slots_ok_def)
next
  case True
  let ?tr = "TBufferedTransport (TSocket (created w) (host self) (port self))"
  let ?fresh = "\<lparr>client = Some (Dynomite_Client (TBinaryProtocol ?tr)), transport = Some ?tr\<rparr>"
  from True have c: "con (fst (exec env (self, w) (t, op))) = (con self)(t := ?fresh)"
    by (auto simp: exec_slot)
  from True have cr: "created (snd (exec env (self, w) (t, op))) = Suc (created w)"
    using exec_world [of env self w t op] by auto
  have id: "socket_id ?tr = created w"
    by (simp add: socket_id_def)
  from ok have old: "\<And>u tr. transport (con self u) = Some tr \<Longrightarrow> socket_id tr < created w"
    by (simp add: slots_ok_def)
  have "\<forall>u cl. client (((con self)(t := ?fresh)) u) = Some cl \<longrightarrow>
          (\<exists>tr. transport (((con self)(t := ?fresh)) u) = Some tr \<and>
                client_socket cl = socket_id tr)"
    using ok by (auto simp: slots_ok_def socket_id_def)
  moreover have "\<forall>u tr. transport (((con self)(t := ?fresh)) u) = Some tr \<longrightarrow>
          socket_id tr < Suc (created w)"
    using old id by (auto simp: less_Suc_eq)
  moreover have "\<forall>u u' tr tr'. u \<noteq> u' \<longrightarrow>
          transport (((con self)(t := ?fresh)) u) = Some tr \<longrightarrow>
          transport (((con self)(t := ?fresh)) u') = Some tr' \<longrightarrow>
          socket_id tr \<noteq> socket_id tr'"
  proof (intro allI impI)
    fix u u' tr tr'
    assume ne: "u \<noteq> u'"
      and a: "transport (((con self)(t := ?fresh)) u) = Some tr"
      and b: "transport (((con self)(t := ?fresh)) u') = Some tr'"
    show "socket_id tr \<noteq> socket_id tr'"
    proof (cases "u = t")
      case True
      with ne a b have "socket_id tr = created w" "socket_id tr' < created w"
        using old [of u' tr'] id by auto
      then show ?thesis by simp
    next
      case False
      show ?thesis
      proof (cases "u' = t")
        case True
        with ne a b have "socket_id tr' = created w" "socket_id tr < created w"
          using old [of u tr] id by auto
        then show ?thesis by simp
      next
        case False
        with \<open>u \<noteq> t\<close> ne a b ok show ?thesis
          by (simp add: slots_ok_def)
      qed
    qed
  qed
  ultimately show ?thesis
    unfolding slots_ok_def c cr by blast
qed

lemma slots_ok_run:
  "slots_ok self w \<Longrightarrow>
   slots_ok (fst (run env (self, w) calls)) (snd (run env (self, w) calls))"
proof (induction calls rule: rev_induct)
  case Nil
  then show ?case by simp
next
  case (snoc c cs)
  obtain self1 w1 where s1: "run env (self, w) cs = (self1, w1)"
    by (cases "run env (self, w) cs")
  obtain t op where c: "c = (t, op)"
    by (cases c)
  from snoc s1 have "slots_ok self1 w1" by simp
  then show ?case
    using s1 c slots_ok_exec [of self1 w1 env t op] by simp
qed

lemma exec_events_own_socket:
  assumes ok: "slots_ok self w" and ne: "t1 \<noteq> t2"
    and tr2: "transport (con self t2) = Some tr2"
  shows "\<forall>ev \<in> set (new_events w (snd (exec env (self, w) (t1, op)))).
           event_socket ev \<noteq> socket_id tr2"
proof -
  from exec_world [of env self w t1 op] obtain es where
    es: "trace (snd (exec env (self, w) (t1, op))) = trace w @ es" and
    evs: "\<forall>ev \<in> set es. (case ev of
              Connect n h p \<Rightarrow>
                client (con self t1) = None \<and> n = created w \<and> h = host self \<and> p = port self
            | Close n \<Rightarrow> (\<exists>tr. transport (con self t1) = Some tr \<and> n = socket_id tr)
            | Call n req \<Rightarrow>
                (case client (con self t1) of None \<Rightarrow> n = created w
                 | Some cl \<Rightarrow> n = client_socket cl))"
    by blast
  from ok tr2 have lt: "socket_id tr2 < created w"
    by (simp add: slots_ok_def)
  from ok ne tr2 have other: "\<And>tr. transport (con self t1) = Some tr \<Longrightarrow> socket_id tr \<noteq> socket_id tr2"
    by (simp add: slots_ok_def)
  from ok have cl: "\<And>cl. client (con self t1) = Some cl \<Longrightarrow>
      \<exists>tr. transport (con self t1) = Some tr \<and> client_socket cl = socket_id tr"
    by (simp add: slots_ok_def)
  have "event_socket ev \<noteq> socket_id tr2" if "ev \<in> set es" for ev
  proof (cases ev)
    case (Connect n h p)
    with evs that lt show ?thesis by fastforce
  next
    case (Close n)
    with evs that other show ?thesis by fastforce
  next
    case (Call n req)
    show ?thesis
    proof (cases "client (con self t1)")
      case None
      with Call evs that lt show ?thesis by fastforce
    next
      case (Some c)
      with Call evs that have "n = client_socket c" by fastforce
      with cl [OF Some] other Call show ?thesis by auto
    qed
  qed
  then show ?thesis
    by (simp add: new_events_def es)
qed

text \<open>
  Claim C7. For two distinct threads T1 and T2 on one facade, a call by T1, be it
  \<open>disconnect\<close> or any other method, leaves T2's slot as it was, and its outcome
  and effects do not depend on what T2's slot holds. In every state a fresh facade
  can reach, no event of T1's call happens on the socket recorded for T2: T1
  closing its connection does not close the one T2 works with.
\<close>

theorem thread_isolation:
  assumes "t1 \<noteq> t2"
  shows "con (fst (exec env (self, w) (t1, op))) t2 = con self t2 \<and>
     exec env (self\<lparr>con := (con self)(t2 := s)\<rparr>, w) (t1, op) =
       (case exec env (self, w) (t1, op) of
          (self', w') \<Rightarrow> (self'\<lparr>con := (con self')(t2 := s)\<rparr>, w')) \<and>
     (\<forall>tr2. transport (con (fst (run env (init h p, w0) calls)) t2) = Some tr2 \<longrightarrow>
        (\<forall>ev \<in> set (new_events (snd (run env (init h p, w0) calls))
                      (snd (exec env (run env (init h p, w0) calls) (t1, op)))).
           event_socket ev \<noteq> socket_id tr2))"
proof -
  obtain self1 w1 where s1: "run env (init h p, w0) calls = (self1, w1)"
    by (cases "run env (init h p, w0) calls")
  have "slots_ok self1 w1"
    using slots_ok_run [of "init h p" w0 env calls] slots_ok_init [of h p w0] s1 by simp
  then have "\<forall>tr2. transport (con self1 t2) = Some tr2 \<longrightarrow>
        (\<forall>ev \<in> set (new_events w1 (snd (exec env (self1, w1) (t1, op)))).
           event_socket ev \<noteq> socket_id tr2)"
    using exec_events_own_socket [OF _ assms] by blast
  moreover have "con (fst (exec env (self, w) (t1, op))) t2 = con self t2"
    using assms by (simp add: exec_slot)
  ultimately show ?thesis
    using exec_read_frame [OF assms] s1 by simp
qed

theorem thread_isolation_witness:
  "(0::nat) \<noteq> 1 \<and>
   transport (con (fst (run env_up (facade0, world0) [(0, Op_get ''a''), (1, Op_get ''b'')])) 1) =
     Some (TBufferedTransport (TSocket 1 ''localhost'' 9191)) \<and>
   new_events (snd (run env_up (facade0, world0) [(0, Op_get ''a''), (1, Op_get ''b'')]))
     (snd (exec env_up (run env_up (facade0, world0) [(0, Op_get ''a''), (1, Op_get ''b'')])
        (0, Op_disconnect))) = [Close 0] \<and>
   con (fst (exec env_up (run env_up (facade0, world0) [(0, Op_get ''a''), (1, Op_get ''b'')])
        (0, Op_disconnect))) 1 =
     con (fst (run env_up (facade0, world0) [(0, Op_get ''a''), (1, Op_get ''b'')])) 1"
  using thread_isolation [of 0 1 env_up
      "fst (run env_up (facade0, world0) [(0, Op_get ''a''), (1, Op_get ''b'')])"
      "snd (run env_up (facade0, world0) [(0, Op_get ''a''), (1, Op_get ''b'')])"
      Op_disconnect empty_slot "''localhost''" 9191 world0
      "[(0, Op_get ''a''), (1, Op_get ''b'')]"]
  by (simp add: facade_defs fixture_defs)

end
